theory Spec2Isabelle
  imports Main
begin

section \<open>Values exchanged with the client\<close>

text \<open>
  The backend (\<^verbatim>\<open>src/backend/server.js\<close>) is an Express application over an in-memory
  SQLite database. Its handlers read JSON request bodies and answer with a status code and
  a JSON body. The token built by \<^verbatim>\<open>jwt.sign\<close> is kept structured: the signed payload, the
  two time stamps the library adds (seconds), and the key it was signed with.
\<close>

record jwt =
  j_id :: nat
  j_username :: string
  j_role :: string
  iat :: nat
  exp :: nat
  signed_with :: string

text \<open>
  JavaScript values as they occur in bodies: \<open>JUndefined\<close> is what reading an absent
  property gives, \<open>JToken\<close> is the compact token string, \<open>JTime\<close> a time stamp text
  (kept as the instant, in seconds). Numbers are the integers.
\<close>

datatype json =
    JUndefined
  | JNull
  | JBool bool
  | JNum int
  | JStr string
  | JToken jwt
  | JTime nat
  | JArr "json list"
  | JObj "(string \<times> json) list"

fun field :: "string \<Rightarrow> json \<Rightarrow> json" where
  "field k (JObj kvs) = (case map_of kvs k of Some v \<Rightarrow> v | None \<Rightarrow> JUndefined)"
| "field k _ = JUndefined"

fun keys :: "json \<Rightarrow> string list" where
  "keys (JObj kvs) = map fst kvs"
| "keys _ = []"

fun elements :: "json \<Rightarrow> json list" where
  "elements (JArr xs) = xs"
| "elements _ = []"

text \<open>JavaScript truthiness, as \<^verbatim>\<open>||\<close> tests it.\<close>

fun truthy :: "json \<Rightarrow> bool" where
  "truthy JUndefined = False"
| "truthy JNull = False"
| "truthy (JBool b) = b"
| "truthy (JNum n) = (n \<noteq> 0)"
| "truthy (JStr s) = (s \<noteq> [])"
| "truthy _ = True"

definition js_or :: "json \<Rightarrow> json \<Rightarrow> json" where
  "js_or a b = (if truthy a then a else b)"

record response =
  status :: nat
  body :: json

text \<open>\<^verbatim>\<open>res.json(v)\<close> answers with status 200; \<^verbatim>\<open>res.status(c).json(v)\<close> with \<open>c\<close>.\<close>

definition res_json :: "json \<Rightarrow> response" where
  "res_json v = \<lparr>status = 200, body = v\<rparr>"

definition res_status_json :: "nat \<Rightarrow> json \<Rightarrow> response" where
  "res_status_json c v = \<lparr>status = c, body = v\<rparr>"

record js_error =
  message :: string
  stack :: string

section \<open>Configuration read at startup\<close>

text \<open>
  \<^verbatim>\<open>process.env.X || d\<close>: the default is taken when the variable is unset and also when
  it is the empty string.
\<close>

type_synonym env = "string \<rightharpoonup> string"

definition env_or :: "string option \<Rightarrow> string \<Rightarrow> string" where
  "env_or v d = (case v of None \<Rightarrow> d | Some s \<Rightarrow> if s = [] then d else s)"

definition PORT :: "env \<Rightarrow> string" where
  "PORT e = env_or (e ''PORT'') ''3001''"

definition JWT_SECRET :: "env \<Rightarrow> string" where
  "JWT_SECRET e = env_or (e ''JWT_SECRET'') ''super-secret-key-12345''"

definition NODE_ENV :: "env \<Rightarrow> string" where
  "NODE_ENV e = env_or (e ''NODE_ENV'') ''development''"

section \<open>The database\<close>

record user =
  u_id :: nat
  u_username :: string
  u_password :: string
  u_email :: string
  u_role :: string

text \<open>
  What a column of the \<^verbatim>\<open>tasks\<close> table holds: \<^verbatim>\<open>NULL\<close>, an integer or a text. Reals and
  blobs are not modelled.
\<close>

datatype sqlval = SNull | SInteger int | SText string

record task =
  t_id :: nat
  t_user_id :: sqlval
  t_title :: sqlval
  t_description :: sqlval
  t_completed :: sqlval
  t_created_at :: nat

text \<open>
  The two tables, the \<^verbatim>\<open>AUTOINCREMENT\<close> counters, and \<open>fault\<close>: an engine failure that
  makes every statement call its callback with \<^verbatim>\<open>err\<close> set (\<open>None\<close> in normal operation).
\<close>

record db =
  users :: "user list"
  tasks :: "task list"
  users_seq :: nat
  tasks_seq :: nat
  fault :: "string option"

text \<open>\<^verbatim>\<open>db.serialize\<close> at startup: both tables created, two users inserted with one hash.\<close>

definition init_db :: "string \<Rightarrow> db" where
  "init_db hashedPassword =
     \<lparr>users =
        [\<lparr>u_id = 1, u_username = ''admin'', u_password = hashedPassword,
          u_email = ''admin@example.com'', u_role = ''admin''\<rparr>,
         \<lparr>u_id = 2, u_username = ''user1'', u_password = hashedPassword,
          u_email = ''user1@example.com'', u_role = ''user''\<rparr>],
      tasks = [],
      users_seq = 2,
      tasks_seq = 0,
      fault = None\<rparr>"

subsection \<open>The login query, a text\<close>

text \<open>
  The login handler builds its query by interpolation, so the engine sees one text and
  parses it. The model of the engine covers the texts of this shape: the fixed prefix, a
  string literal (a doubled quote inside stands for one quote), then nothing more than
  blanks and a \<^verbatim>\<open>--\<close> comment running to the end. A literal that is never closed is a
  syntax error. Any other continuation is SQL outside this fragment, and the model says
  so with \<open>None\<close>. The engine reads the text up to its first NUL character only, so a
  NUL inside the literal leaves the literal unclosed.
\<close>

definition quote :: char where
  "quote = CHR 0x27"

definition login_query :: "string \<Rightarrow> string" where
  "login_query username = ''SELECT * FROM users WHERE username = '' @ [quote] @ username @ [quote]"

fun string_literal :: "string \<Rightarrow> (string \<times> string) option" where
  "string_literal [] = None"
| "string_literal [c] = (if c = quote then Some ([], []) else None)"
| "string_literal (c # d # cs) =
     (if c = quote then
        (if d = quote then map_option (\<lambda>(l, r). (quote # l, r)) (string_literal cs)
         else Some ([], d # cs))
      else map_option (\<lambda>(l, r). (c # l, r)) (string_literal (d # cs)))"

definition ends_statement :: "string \<Rightarrow> bool" where
  "ends_statement rest =
     (let r = dropWhile (\<lambda>c. c = CHR '' '') rest
      in r = [] \<or> (take 2 r = ''--'' \<and> CHR 0x0A \<notin> set r))"

definition users_get :: "db \<Rightarrow> string \<Rightarrow> (string + user option) option" where
  "users_get d q =
     (case fault d of
        Some m \<Rightarrow> Some (Inl m)
      | None \<Rightarrow>
          (let p = ''SELECT * FROM users WHERE username = '' @ [quote];
               sql = takeWhile (\<lambda>c. c \<noteq> CHR 0x00) q in
           if take (length p) sql \<noteq> p then None
           else case string_literal (drop (length p) sql) of
                  None \<Rightarrow> Some (Inl ''SQLITE_ERROR: unrecognized token'')
                | Some (lit, rest) \<Rightarrow>
                    if ends_statement rest
                    then Some (Inr (find (\<lambda>u. u_username u = lit) (users d)))
                    else None))"

subsection \<open>The statements with bound parameters\<close>

text \<open>
  A route parameter is a text compared with an \<^verbatim>\<open>INTEGER\<close> column, which makes the
  engine read the text as a number. The model reads the texts of one to eighteen decimal
  digits (they fit a 64-bit integer); any other text is outside the fragment (\<open>None\<close>).
\<close>

definition digit_val :: "char \<Rightarrow> nat option" where
  "digit_val c =
     (let n = (of_char c :: nat)
      in if 48 \<le> n \<and> n \<le> 57 then Some (n - 48) else None)"

fun digits_val :: "nat \<Rightarrow> string \<Rightarrow> nat option" where
  "digits_val acc [] = Some acc"
| "digits_val acc (c # cs) =
     (case digit_val c of None \<Rightarrow> None | Some v \<Rightarrow> digits_val (10 * acc + v) cs)"

definition int_param :: "string \<Rightarrow> nat option" where
  "int_param s = (if s = [] \<or> 18 < length s then None else digits_val 0 s)"

text \<open>
  The value the driver binds for a JavaScript value of the parameter array: a string as
  text, a number as an integer (the numbers of 32 bits; others go as reals and are not
  modelled), a boolean as 1 or 0, \<^verbatim>\<open>null\<close> as \<^verbatim>\<open>NULL\<close>, and \<^verbatim>\<open>undefined\<close> not at all, which
  leaves the parameter \<^verbatim>\<open>NULL\<close>. Arrays and objects (bound as the text of their
  \<^verbatim>\<open>toString\<close>) and strings holding a NUL character are outside the fragment.
\<close>

fun bind_param :: "json \<Rightarrow> sqlval option" where
  "bind_param JUndefined = Some SNull"
| "bind_param JNull = Some SNull"
| "bind_param (JBool b) = Some (SInteger (if b then 1 else 0))"
| "bind_param (JNum n) =
     (if - 2147483648 \<le> n \<and> n \<le> 2147483647 then Some (SInteger n) else None)"
| "bind_param (JStr s) = (if CHR 0x00 \<in> set s then None else Some (SText s))"
| "bind_param _ = None"

text \<open>
  What a column stores of a bound value depends on the affinity its declared type gives
  it: \<^verbatim>\<open>user_id INTEGER\<close> has integer affinity, \<^verbatim>\<open>title TEXT\<close> and \<^verbatim>\<open>description TEXT\<close>
  text affinity, \<^verbatim>\<open>completed BOOLEAN\<close> numeric affinity. A text column stores an integer
  as its decimal text. An integer or numeric column stores a text that is a number as
  that number: the model covers the texts of one to eighteen digits, which become
  integers, and the texts without any digit, which are no numbers and stay texts. Texts
  that mix digits with other characters (signs, blanks, fractions, exponents) are
  outside the fragment.
\<close>

datatype affinity = AffInteger | AffText | AffNumeric

definition digit_char :: "nat \<Rightarrow> char" where
  "digit_char n = ''0123456789'' ! (n mod 10)"

function dec_nat :: "nat \<Rightarrow> string" where
  "dec_nat n =
     (if n < 10 then [digit_char n]
      else dec_nat (n div 10) @ [digit_char n])"
  by pat_completeness auto
termination
  by (relation "measure (\<lambda>n. n)") auto

definition dec_int :: "int \<Rightarrow> string" where
  "dec_int i = (if i < 0 then CHR ''-'' # dec_nat (nat (- i)) else dec_nat (nat i))"

definition no_digit :: "string \<Rightarrow> bool" where
  "no_digit s = list_all (\<lambda>c. digit_val c = None) s"

fun apply_affinity :: "affinity \<Rightarrow> sqlval \<Rightarrow> sqlval option" where
  "apply_affinity a SNull = Some SNull"
| "apply_affinity AffText (SInteger n) = Some (SText (dec_int n))"
| "apply_affinity AffText (SText s) = Some (SText s)"
| "apply_affinity a (SInteger n) = Some (SInteger n)"
| "apply_affinity a (SText s) =
     (if no_digit s then Some (SText s)
      else map_option (\<lambda>n. SInteger (int n)) (int_param s))"

definition stored :: "affinity \<Rightarrow> json \<Rightarrow> sqlval option" where
  "stored a v = (case bind_param v of None \<Rightarrow> None | Some x \<Rightarrow> apply_affinity a x)"

text \<open>A stored value as the driver hands it back to JavaScript.\<close>

fun sql_json :: "sqlval \<Rightarrow> json" where
  "sql_json SNull = JNull"
| "sql_json (SInteger n) = JNum n"
| "sql_json (SText s) = JStr s"

text \<open>\<^verbatim>\<open>SELECT id, username, email, role FROM users\<close>\<close>

definition user_row :: "user \<Rightarrow> json" where
  "user_row u =
     JObj [(''id'', JNum (int (u_id u))), (''username'', JStr (u_username u)),
           (''email'', JStr (u_email u)), (''role'', JStr (u_role u))]"

definition users_all :: "db \<Rightarrow> string + json list" where
  "users_all d = (case fault d of Some m \<Rightarrow> Inl m | None \<Rightarrow> Inr (map user_row (users d)))"

text \<open>\<^verbatim>\<open>SELECT * FROM tasks WHERE id = ?\<close>\<close>

definition task_row :: "task \<Rightarrow> json" where
  "task_row t =
     JObj [(''id'', JNum (int (t_id t))), (''user_id'', sql_json (t_user_id t)),
           (''title'', sql_json (t_title t)), (''description'', sql_json (t_description t)),
           (''completed'', sql_json (t_completed t)), (''created_at'', JTime (t_created_at t))]"

definition tasks_get :: "db \<Rightarrow> string \<Rightarrow> (string + task option) option" where
  "tasks_get d ident =
     (case fault d of
        Some m \<Rightarrow> Some (Inl m)
      | None \<Rightarrow> map_option (\<lambda>n. Inr (find (\<lambda>t. t_id t = n) (tasks d))) (int_param ident))"

text \<open>
  \<^verbatim>\<open>INSERT INTO tasks (user_id, title, description, completed) VALUES (?, ?, ?, ?)\<close>
  with the four values of the parameter array; it yields the new database and
  \<^verbatim>\<open>this.lastID\<close>, or \<open>None\<close> when a value is outside the fragment.
\<close>

definition tasks_insert ::
  "nat \<Rightarrow> db \<Rightarrow> json \<Rightarrow> json \<Rightarrow> json \<Rightarrow> json \<Rightarrow> (db \<times> (string + nat)) option" where
  "tasks_insert now d user_id title description completed =
     (case fault d of
        Some m \<Rightarrow> Some (d, Inl m)
      | None \<Rightarrow>
          (case (stored AffInteger user_id, stored AffText title,
                 stored AffText description, stored AffNumeric completed) of
             (Some u, Some t, Some e, Some c) \<Rightarrow>
               (let n = Suc (tasks_seq d);
                    row = \<lparr>t_id = n, t_user_id = u, t_title = t, t_description = e,
                           t_completed = c, t_created_at = now div 1000\<rparr>
                in Some (d\<lparr>tasks := tasks d @ [row], tasks_seq := n\<rparr>, Inr n))
           | _ \<Rightarrow> None))"

text \<open>\<^verbatim>\<open>DELETE FROM users WHERE id = ?\<close>\<close>

definition users_delete :: "db \<Rightarrow> string \<Rightarrow> (db \<times> string option) option" where
  "users_delete d ident =
     (case fault d of
        Some m \<Rightarrow> Some (d, Some m)
      | None \<Rightarrow>
          map_option (\<lambda>n. (d\<lparr>users := filter (\<lambda>u. u_id u \<noteq> n) (users d)\<rparr>, None))
            (int_param ident))"

section \<open>The libraries the handlers call\<close>

text \<open>
  \<^verbatim>\<open>jwt.sign(payload, secret, { expiresIn: '24h' })\<close>: the library stamps the token with
  the issuing second and an expiry 24 hours later. The clock is in milliseconds, as
  \<^verbatim>\<open>Date.now()\<close> gives it.
\<close>

definition expiresIn :: nat where
  "expiresIn = 24 * 60 * 60"

definition jwt_sign :: "nat \<Rightarrow> string \<Rightarrow> string \<Rightarrow> string \<Rightarrow> nat \<Rightarrow> jwt" where
  "jwt_sign ident username role secret now =
     \<lparr>j_id = ident, j_username = username, j_role = role,
      iat = now div 1000, exp = now div 1000 + expiresIn, signed_with = secret\<rparr>"

text \<open>
  The handlers take the password comparison \<^verbatim>\<open>bcrypt.compareSync\<close> as a parameter
  \<open>cmp\<close>. Where a concrete run is evaluated, the following stand-in for the bcryptjs
  library is used: it keeps the contract that a password compares equal to its own hash,
  whatever the salt, and to no hash of another password; it keeps nothing of the
  cryptography.
\<close>

definition bcrypt_hashSync :: "string \<Rightarrow> string \<Rightarrow> string" where
  "bcrypt_hashSync salt p = ''$2a$10$'' @ salt @ ''$'' @ p"

definition bcrypt_compareSync :: "string \<Rightarrow> string \<Rightarrow> bool" where
  "bcrypt_compareSync p h =
     (take 7 h = ''$2a$10$'' \<and> dropWhile (\<lambda>c. c \<noteq> CHR ''$'') (drop 7 h) = CHR ''$'' # p)"

definition hashedPassword :: string where
  "hashedPassword = bcrypt_hashSync ''N9qo8uLOickgx2ZMRZoMye'' ''password123''"

definition seeded :: db where
  "seeded = init_db hashedPassword"

section \<open>The route handlers\<close>

text \<open>
  Each handler is the callback the source passes to the database call, applied to what
  the database call yields. The login callback also records the library calls it makes.
\<close>

datatype call = CompareSync string string | Sign nat

definition invalid_credentials :: response where
  "invalid_credentials = res_status_json 401 (JObj [(''error'', JStr ''Invalid credentials'')])"

text \<open>\<^verbatim>\<open>POST /api/login\<close>, the callback \<^verbatim>\<open>(err, user) => ...\<close>\<close>

definition login_cb ::
  "(string \<Rightarrow> string \<Rightarrow> bool) \<Rightarrow> string \<Rightarrow> nat \<Rightarrow> string + user option \<Rightarrow> string
     \<Rightarrow> call list \<times> response" where
  "login_cb cmp secret now r password =
     (case r of
        Inl err \<Rightarrow> ([], res_status_json 500 (JObj [(''error'', JStr ''Database error'')]))
      | Inr None \<Rightarrow> ([], invalid_credentials)
      | Inr (Some user) \<Rightarrow>
          if cmp password (u_password user)
          then
            (let token = jwt_sign (u_id user) (u_username user) (u_role user) secret now
             in ([CompareSync password (u_password user), Sign (u_id user)],
                 res_json
                   (JObj [(''token'', JToken token),
                          (''user'',
                           JObj [(''id'', JNum (int (u_id user))),
                                 (''username'', JStr (u_username user)),
                                 (''email'', JStr (u_email user)),
                                 (''role'', JStr (u_role user)),
                                 (''password'', JStr (u_password user))])])))
          else ([CompareSync password (u_password user)], invalid_credentials))"

text \<open>
  The handler itself. The model covers bodies whose \<^verbatim>\<open>username\<close> and \<^verbatim>\<open>password\<close> are
  strings; with any other body, and with a query text outside the fragment of
  \<open>users_get\<close>, it gives \<open>None\<close>.
\<close>

definition post_login ::
  "(string \<Rightarrow> string \<Rightarrow> bool) \<Rightarrow> string \<Rightarrow> nat \<Rightarrow> db \<Rightarrow> json
     \<Rightarrow> (call list \<times> response) option" where
  "post_login cmp secret now d b =
     (case (field ''username'' b, field ''password'' b) of
        (JStr username, JStr password) \<Rightarrow>
          map_option (\<lambda>r. login_cb cmp secret now r password)
            (users_get d (login_query username))
      | _ \<Rightarrow> None)"

text \<open>\<^verbatim>\<open>GET /api/users\<close>\<close>

definition get_users :: "db \<Rightarrow> response" where
  "get_users d =
     (case users_all d of
        Inl m \<Rightarrow> res_status_json 500 (JObj [(''error'', JStr m)])
      | Inr rows \<Rightarrow> res_json (JArr rows))"

text \<open>\<^verbatim>\<open>GET /api/tasks/:id\<close>\<close>

definition get_task :: "db \<Rightarrow> string \<Rightarrow> response option" where
  "get_task d ident =
     map_option
       (\<lambda>r. case r of
               Inl m \<Rightarrow> res_status_json 500 (JObj [(''error'', JStr m)])
             | Inr None \<Rightarrow> res_status_json 404 (JObj [(''error'', JStr ''Task not found'')])
             | Inr (Some t) \<Rightarrow> res_json (task_row t))
       (tasks_get d ident)"

text \<open>\<^verbatim>\<open>POST /api/tasks\<close>\<close>

definition post_tasks :: "nat \<Rightarrow> db \<Rightarrow> json \<Rightarrow> (db \<times> response) option" where
  "post_tasks now d b =
     (let user_id = field ''user_id'' b; title = field ''title'' b;
          description = field ''description'' b; completed = field ''completed'' b
      in case tasks_insert now d user_id title description (js_or completed (JNum 0)) of
           None \<Rightarrow> None
         | Some (d', Inl m) \<Rightarrow> Some (d', res_status_json 500 (JObj [(''error'', JStr m)]))
         | Some (d', Inr lastID) \<Rightarrow>
             Some (d', res_json (JObj [(''id'', JNum (int lastID)),
                                       (''message'', JStr ''Task created'')])))"

text \<open>\<^verbatim>\<open>GET /api/admin/delete-user/:id\<close>\<close>

definition delete_user :: "db \<Rightarrow> string \<Rightarrow> (db \<times> response) option" where
  "delete_user d ident =
     map_option
       (\<lambda>(d', err). case err of
                      Some m \<Rightarrow> (d', res_status_json 500 (JObj [(''error'', JStr m)]))
                    | None \<Rightarrow> (d', res_json (JObj [(''message'', JStr ''User deleted'')])))
       (users_delete d ident)"

text \<open>The error-handling middleware \<^verbatim>\<open>(err, req, res, next) => ...\<close>\<close>

definition error_handler :: "js_error \<Rightarrow> response" where
  "error_handler err =
     res_status_json 500 (JObj [(''error'', JStr (message err)), (''stack'', JStr (stack err))])"

section \<open>Requests and routing\<close>

text \<open>
  A request: method, path segments, the bearer token of its \<^verbatim>\<open>Authorization\<close> header
  when it carries one, and what the body parser made of its body (an error when the
  payload is not JSON, which Express hands to the error middleware).
\<close>

datatype meth = GET | POST

record request =
  meth :: meth
  path :: "string list"
  authorization :: "jwt option"
  payload :: "js_error + json"

datatype route = Login | Users | Task string | NewTask | DeleteUser string

text \<open>
  The routes in the order they are registered. \<^verbatim>\<open>/api/tasks/search\<close> is registered
  before \<^verbatim>\<open>/api/tasks/:id\<close>; it and the export, upload and health routes are not
  modelled (\<open>None\<close>).
\<close>

fun dispatch :: "meth \<Rightarrow> string list \<Rightarrow> route option" where
  "dispatch m [a, b] =
     (if m = POST \<and> a = ''api'' \<and> b = ''login'' then Some Login
      else if m = GET \<and> a = ''api'' \<and> b = ''users'' then Some Users
      else if m = POST \<and> a = ''api'' \<and> b = ''tasks'' then Some NewTask
      else None)"
| "dispatch m [a, b, c] =
     (if m = GET \<and> a = ''api'' \<and> b = ''tasks'' \<and> c \<noteq> ''search'' then Some (Task c)
      else None)"
| "dispatch m [a, b, c, e] =
     (if m = GET \<and> a = ''api'' \<and> b = ''admin'' \<and> c = ''delete-user'' then Some (DeleteUser e)
      else None)"
| "dispatch m _ = None"

definition handle ::
  "(string \<Rightarrow> string \<Rightarrow> bool) \<Rightarrow> string \<Rightarrow> nat \<Rightarrow> db \<Rightarrow> request \<Rightarrow> (db \<times> response) option" where
  "handle cmp secret now d req =
     (case payload req of
        Inl err \<Rightarrow> Some (d, error_handler err)
      | Inr b \<Rightarrow>
          (case dispatch (meth req) (path req) of
             None \<Rightarrow> None
           | Some Login \<Rightarrow> map_option (\<lambda>(cs, r). (d, r)) (post_login cmp secret now d b)
           | Some Users \<Rightarrow> Some (d, get_users d)
           | Some (Task ident) \<Rightarrow> map_option (\<lambda>r. (d, r)) (get_task d ident)
           | Some NewTask \<Rightarrow> post_tasks now d b
           | Some (DeleteUser ident) \<Rightarrow> delete_user d ident))"

section \<open>Startup\<close>

text \<open>
  Loading the module reads the environment, seeds the database and starts listening.
  The source has no branch that stops the process: whatever the environment, a server
  comes up, and \<^verbatim>\<open>NODE_ENV\<close> is read only for the line logged after listening.
\<close>

record server =
  port :: string
  jwt_secret :: string
  logged_environment :: string
  database :: db

definition startup :: "env \<Rightarrow> server" where
  "startup e =
     \<lparr>port = PORT e, jwt_secret = JWT_SECRET e, logged_environment = NODE_ENV e,
      database = seeded\<rparr>"

section \<open>Requests used in the concrete runs\<close>

definition login_request :: "string \<Rightarrow> string \<Rightarrow> request" where
  "login_request u p =
     \<lparr>meth = POST, path = [''api'', ''login''], authorization = None,
      payload = Inr (JObj [(''username'', JStr u), (''password'', JStr p)])\<rparr>"

definition get_request :: "string list \<Rightarrow> jwt option \<Rightarrow> request" where
  "get_request p a = \<lparr>meth = GET, path = p, authorization = a, payload = Inr (JObj [])\<rparr>"


definition admin_row :: user where
  "admin_row = \<lparr>u_id = 1, u_username = ''admin'', u_password = hashedPassword,
                 u_email = ''admin@example.com'', u_role = ''admin''\<rparr>"

definition user1_row :: user where
  "user1_row = \<lparr>u_id = 2, u_username = ''user1'', u_password = hashedPassword,
                 u_email = ''user1@example.com'', u_role = ''user''\<rparr>"

text \<open>The token that a login of \<^verbatim>\<open>user1\<close> at time \<open>now\<close> returns.\<close>

definition user1_token :: "string \<Rightarrow> nat \<Rightarrow> jwt" where
  "user1_token secret now = jwt_sign 2 ''user1'' ''user'' secret now"

text \<open>A task of the administrator's, and the database once it has been created.\<close>

definition admin_task :: json where
  "admin_task =
     JObj [(''user_id'', JNum 1), (''title'', JStr ''Rotate keys''),
           (''description'', JStr ''private'')]"

definition with_admin_task :: db where
  "with_admin_task =
     (case post_tasks 0 seeded admin_task of Some (d, r) \<Rightarrow> d | None \<Rightarrow> seeded)"



definition production_env :: env where
  "production_env = [''NODE_ENV'' \<mapsto> ''production'']"

text \<open>The user name \<^verbatim>\<open>admin' --\<close>.\<close>

definition injected_username :: string where
  "injected_username = ''admin'' @ [quote] @ '' --''"

section \<open>Facts about the model\<close>

lemma string_literal_plain:
  "quote \<notin> set u \<Longrightarrow> string_literal (u @ [quote]) = Some (u, [])"
  by (induction u rule: string_literal.induct) auto

lemma login_query_no_nul:
  "CHR 0x00 \<notin> set u \<Longrightarrow> takeWhile (\<lambda>c. c \<noteq> CHR 0x00) (login_query u) = login_query u"
  by (rule takeWhile_eq_all_conv [THEN iffD2]) (auto simp add: login_query_def quote_def)

lemma users_get_plain:
  "fault d = None \<Longrightarrow> quote \<notin> set u \<Longrightarrow> CHR 0x00 \<notin> set u \<Longrightarrow>
   users_get d (login_query u) = Some (Inr (find (\<lambda>x. u_username x = u) (users d)))"
  by (simp add: users_get_def login_query_no_nul Let_def)
     (simp add: login_query_def string_literal_plain ends_statement_def)

lemma quote_free_admin: "quote \<notin> set ''admin''"
  and quote_free_user1: "quote \<notin> set ''user1''"
  and quote_free_nobody: "quote \<notin> set ''nobody''"
  by (simp_all add: quote_def)

lemma nul_free_admin: "CHR 0x00 \<notin> set ''admin''"
  and nul_free_user1: "CHR 0x00 \<notin> set ''user1''"
  and nul_free_nobody: "CHR 0x00 \<notin> set ''nobody''"
  by simp_all

lemma seeded_fault: "fault seeded = None"
  by (simp add: seeded_def init_db_def)

lemma seeded_users: "users seeded = [admin_row, user1_row]"
  by (simp add: seeded_def init_db_def admin_row_def user1_row_def)

lemma compare_seed: "bcrypt_compareSync ''password123'' hashedPassword"
  by (simp add: bcrypt_compareSync_def hashedPassword_def bcrypt_hashSync_def)

lemma compare_wrong: "\<not> bcrypt_compareSync ''wrong'' hashedPassword"
  by (simp add: bcrypt_compareSync_def hashedPassword_def bcrypt_hashSync_def)

lemma lookup_admin: "users_get seeded (login_query ''admin'') = Some (Inr (Some admin_row))"
  using users_get_plain [OF seeded_fault quote_free_admin nul_free_admin]
  by (simp add: seeded_users admin_row_def user1_row_def)

lemma lookup_user1: "users_get seeded (login_query ''user1'') = Some (Inr (Some user1_row))"
  using users_get_plain [OF seeded_fault quote_free_user1 nul_free_user1]
  by (simp add: seeded_users admin_row_def user1_row_def)

lemma lookup_nobody: "users_get seeded (login_query ''nobody'') = Some (Inr None)"
  using users_get_plain [OF seeded_fault quote_free_nobody nul_free_nobody]
  by (simp add: seeded_users admin_row_def user1_row_def)

lemma lookup_injected:
  "users_get seeded (login_query injected_username) = Some (Inr (Some admin_row))"
  by (simp add: users_get_def login_query_def injected_username_def quote_def seeded_fault
      ends_statement_def seeded_users admin_row_def user1_row_def)

lemma no_lone_quote_user: "find (\<lambda>u. u_username u = [quote]) (users seeded) = None"
  by (simp add: seeded_users admin_row_def user1_row_def quote_def)

lemma no_nobody_user: "find (\<lambda>u. u_username u = ''nobody'') (users seeded) = None"
  by (simp add: seeded_users admin_row_def user1_row_def)

lemma lookup_lone_quote:
  "users_get seeded (login_query [quote]) = Some (Inl ''SQLITE_ERROR: unrecognized token'')"
  by (simp add: users_get_def login_query_def quote_def seeded_fault)

lemma no_injected_user: "find (\<lambda>u. u_username u = injected_username) (users seeded) = None"
  by (simp add: seeded_users admin_row_def user1_row_def injected_username_def quote_def)

lemma handle_login:
  "handle cmp secret now d (login_request u p) =
     map_option (\<lambda>r. (d, snd (login_cb cmp secret now r p))) (users_get d (login_query u))"
  by (simp add: handle_def login_request_def post_login_def option.map_comp comp_def split_def)

lemma post_login_strings:
  "post_login cmp secret now d (JObj [(''username'', JStr u), (''password'', JStr p)]) =
     map_option (\<lambda>r. login_cb cmp secret now r p) (users_get d (login_query u))"
  by (simp add: post_login_def)

lemma login_cb_success:
  "cmp p (u_password usr) \<Longrightarrow>
   login_cb cmp secret now (Inr (Some usr)) p =
     ([CompareSync p (u_password usr), Sign (u_id usr)],
      \<lparr>status = 200,
       body = JObj [(''token'', JToken (jwt_sign (u_id usr) (u_username usr) (u_role usr) secret now)),
                    (''user'', JObj [(''id'', JNum (int (u_id usr))),
                                     (''username'', JStr (u_username usr)),
                                     (''email'', JStr (u_email usr)),
                                     (''role'', JStr (u_role usr)),
                                     (''password'', JStr (u_password usr))])]\<rparr>)"
  by (simp add: login_cb_def res_json_def)

lemma login_cb_mismatch:
  "\<not> cmp p (u_password usr) \<Longrightarrow>
   login_cb cmp secret now (Inr (Some usr)) p = ([CompareSync p (u_password usr)], invalid_credentials)"
  by (simp add: login_cb_def)

lemma login_cb_absent: "login_cb cmp secret now (Inr None) p = ([], invalid_credentials)"
  by (simp add: login_cb_def)

lemma login_cb_error:
  "login_cb cmp secret now (Inl m) p =
     ([], \<lparr>status = 500, body = JObj [(''error'', JStr ''Database error'')]\<rparr>)"
  by (simp add: login_cb_def res_status_json_def)

lemma handle_users: "handle cmp secret now d (get_request [''api'', ''users''] a) = Some (d, get_users d)"
  by (simp add: handle_def get_request_def)

lemma get_users_seeded:
  "get_users seeded = \<lparr>status = 200, body = JArr [user_row admin_row, user_row user1_row]\<rparr>"
  by (simp add: get_users_def users_all_def seeded_fault seeded_users res_json_def)

lemma admin_password: "u_password admin_row = hashedPassword"
  and user1_password: "u_password user1_row = hashedPassword"
  by (simp_all add: admin_row_def user1_row_def)

lemma post_tasks_ok:
  assumes "fault d = None"
    and "stored AffInteger (field ''user_id'' b) = Some u"
    and "stored AffText (field ''title'' b) = Some t"
    and "stored AffText (field ''description'' b) = Some e"
    and "stored AffNumeric (field ''completed'' b) = Some c"
  shows "post_tasks now d b =
     Some (d\<lparr>tasks := tasks d @
                [\<lparr>t_id = Suc (tasks_seq d), t_user_id = u, t_title = t, t_description = e,
                  t_completed = (if truthy (field ''completed'' b) then c else SInteger 0),
                  t_created_at = now div 1000\<rparr>],
              tasks_seq := Suc (tasks_seq d)\<rparr>,
           \<lparr>status = 200,
            body = JObj [(''id'', JNum (int (Suc (tasks_seq d)))), (''message'', JStr ''Task created'')]\<rparr>)"
proof -
  have "stored AffNumeric (js_or (field ''completed'' b) (JNum 0)) =
          Some (if truthy (field ''completed'' b) then c else SInteger 0)"
    using assms(5) by (simp add: js_or_def stored_def)
  then show ?thesis
    using assms(1-4) by (simp add: post_tasks_def tasks_insert_def res_json_def Let_def)
qed


lemma stored_number:
  "- 2147483648 \<le> n \<Longrightarrow> n \<le> 2147483647 \<Longrightarrow>
   stored AffInteger (JNum n) = Some (SInteger n) \<and> stored AffNumeric (JNum n) = Some (SInteger n)"
  by (simp add: stored_def)

lemma stored_boolean:
  "stored AffInteger (JBool v) = Some (SInteger (if v then 1 else 0))"
  "stored AffNumeric (JBool v) = Some (SInteger (if v then 1 else 0))"
  by (simp_all add: stored_def)

lemma stored_text: "CHR 0x00 \<notin> set s \<Longrightarrow> stored AffText (JStr s) = Some (SText s)"
  by (simp add: stored_def)

lemma with_admin_task_eq:
  "with_admin_task =
     seeded\<lparr>tasks := [\<lparr>t_id = 1, t_user_id = SInteger 1, t_title = SText ''Rotate keys'',
                         t_description = SText ''private'', t_completed = SInteger 0,
                         t_created_at = 0\<rparr>],
            tasks_seq := 1\<rparr>"
proof -
  have "post_tasks 0 seeded admin_task =
     Some (seeded\<lparr>tasks := tasks seeded @
                [\<lparr>t_id = Suc (tasks_seq seeded), t_user_id = SInteger 1,
                  t_title = SText ''Rotate keys'', t_description = SText ''private'',
                  t_completed = (if truthy (field ''completed'' admin_task) then SNull else SInteger 0),
                  t_created_at = 0 div 1000\<rparr>],
              tasks_seq := Suc (tasks_seq seeded)\<rparr>,
           \<lparr>status = 200,
            body = JObj [(''id'', JNum (int (Suc (tasks_seq seeded)))), (''message'', JStr ''Task created'')]\<rparr>)"
    by (rule post_tasks_ok [OF seeded_fault]) (simp_all add: admin_task_def stored_def)
  then show ?thesis
    by (simp add: with_admin_task_def admin_task_def) (simp add: seeded_def init_db_def)
qed

text \<open>
  With a user name that holds no quote and no NUL character the interpolated query is the
  lookup it was meant to be: the login answers 200 with a token exactly when a row with that user
  name exists and the password compares equal to its hash, and 401 otherwise.
\<close>

lemma login_plain_username:
  assumes "fault d = None" and "quote \<notin> set u" and "CHR 0x00 \<notin> set u"
  shows "handle cmp secret now d (login_request u p) =
           Some (d, case find (\<lambda>x. u_username x = u) (users d) of
                      None \<Rightarrow> invalid_credentials
                    | Some usr \<Rightarrow>
                        if cmp p (u_password usr)
                        then snd (login_cb cmp secret now (Inr (Some usr)) p)
                        else invalid_credentials)"
  by (simp add: handle_login users_get_plain [OF assms] login_cb_absent login_cb_mismatch
      split: option.split)




lemma stored_word: "stored AffInteger (JStr ''abc'') = Some (SText ''abc'')"
  by (simp add: stored_def no_digit_def digit_val_def)

lemma get_users_ok:
  "fault d = None \<Longrightarrow>
   get_users d =
     \<lparr>status = 200,
      body = JArr (map (\<lambda>u. JObj [(''id'', JNum (int (u_id u))), (''username'', JStr (u_username u)),
                                   (''email'', JStr (u_email u)), (''role'', JStr (u_role u))])
                    (users d))\<rparr>"
  by (simp add: get_users_def users_all_def res_json_def user_row_def)

lemma get_users_fault:
  "fault d = Some m \<Longrightarrow> get_users d = \<lparr>status = 500, body = JObj [(''error'', JStr m)]\<rparr>"
  by (simp add: get_users_def users_all_def res_status_json_def)

lemma user_row_password: "user_row (u\<lparr>u_password := h\<rparr>) = user_row u"
  by (simp add: user_row_def)

lemma get_users_passwords:
  "get_users (d\<lparr>users := map (\<lambda>u. u\<lparr>u_password := f u\<rparr>) (users d)\<rparr>) = get_users d"
  by (cases "fault d") (simp_all add: get_users_def users_all_def comp_def user_row_password)



section \<open>The claims\<close>

text \<open>
  Claim C1 (no response carries a password hash or a stack trace). The code does not keep
  it. The successful login of the seeded administrator answers with a user object of five
  fields, the fifth being \<^verbatim>\<open>password\<close> with the stored hash; and a request whose body the
  parser rejects is answered by the error middleware with the error's \<^verbatim>\<open>stack\<close>.
\<close>

theorem responses_expose_hash_and_stack:
  "handle bcrypt_compareSync secret now seeded (login_request ''admin'' ''password123'') =
     Some (seeded,
           \<lparr>status = 200,
            body = JObj [(''token'', JToken (jwt_sign 1 ''admin'' ''admin'' secret now)),
                         (''user'', JObj [(''id'', JNum 1), (''username'', JStr ''admin''),
                                          (''email'', JStr ''admin@example.com''),
                                          (''role'', JStr ''admin''),
                                          (''password'', JStr hashedPassword)])]\<rparr>)
   \<and> handle cmp secret now d \<lparr>meth = m, path = p, authorization = a, payload = Inl err\<rparr> =
     Some (d, \<lparr>status = 500,
               body = JObj [(''error'', JStr (message err)), (''stack'', JStr (stack err))]\<rparr>)"
proof (intro conjI)
  have "login_cb bcrypt_compareSync secret now (Inr (Some admin_row)) ''password123'' =
          ([CompareSync ''password123'' hashedPassword, Sign 1],
           \<lparr>status = 200,
            body = JObj [(''token'', JToken (jwt_sign 1 ''admin'' ''admin'' secret now)),
                         (''user'', JObj [(''id'', JNum 1), (''username'', JStr ''admin''),
                                          (''email'', JStr ''admin@example.com''),
                                          (''role'', JStr ''admin''),
                                          (''password'', JStr hashedPassword)])]\<rparr>)"
    using login_cb_success [of bcrypt_compareSync "''password123''" admin_row secret now]
    by (simp add: admin_password compare_seed) (simp add: admin_row_def)
  then show "handle bcrypt_compareSync secret now seeded (login_request ''admin'' ''password123'') =
     Some (seeded,
           \<lparr>status = 200,
            body = JObj [(''token'', JToken (jwt_sign 1 ''admin'' ''admin'' secret now)),
                         (''user'', JObj [(''id'', JNum 1), (''username'', JStr ''admin''),
                                          (''email'', JStr ''admin@example.com''),
                                          (''role'', JStr ''admin''),
                                          (''password'', JStr hashedPassword)])]\<rparr>)"
    by (simp add: handle_login lookup_admin)
  show "handle cmp secret now d \<lparr>meth = m, path = p, authorization = a, payload = Inl err\<rparr> =
     Some (d, \<lparr>status = 500,
               body = JObj [(''error'', JStr (message err)), (''stack'', JStr (stack err))]\<rparr>)"
    by (simp add: handle_def error_handler_def res_status_json_def)
qed

text \<open>
  Claim C2 (the user listing and the user deletion need a bearer token, else 401). The
  code does not keep it. A request without any \<^verbatim>\<open>Authorization\<close> header gets the user
  listing with status 200, and another one deletes the user with id 2, again with 200.
\<close>

theorem users_routes_served_without_token:
  "handle cmp secret now seeded (get_request [''api'', ''users''] None) =
     Some (seeded, \<lparr>status = 200, body = JArr [user_row admin_row, user_row user1_row]\<rparr>)
   \<and> handle cmp secret now seeded (get_request [''api'', ''admin'', ''delete-user'', ''2''] None) =
     Some (seeded\<lparr>users := [admin_row]\<rparr>,
           \<lparr>status = 200, body = JObj [(''message'', JStr ''User deleted'')]\<rparr>)"
proof (intro conjI)
  show "handle cmp secret now seeded (get_request [''api'', ''users''] None) =
     Some (seeded, \<lparr>status = 200, body = JArr [user_row admin_row, user_row user1_row]\<rparr>)"
    by (simp add: handle_users get_users_seeded)
  have "int_param ''2'' = Some 2"
    by (simp add: int_param_def digit_val_def)
  then have "users_delete seeded ''2'' = Some (seeded\<lparr>users := [admin_row]\<rparr>, None)"
    by (simp add: users_delete_def seeded_fault seeded_users admin_row_def user1_row_def)
  then show "handle cmp secret now seeded (get_request [''api'', ''admin'', ''delete-user'', ''2''] None) =
     Some (seeded\<lparr>users := [admin_row]\<rparr>,
           \<lparr>status = 200, body = JObj [(''message'', JStr ''User deleted'')]\<rparr>)"
    by (simp add: handle_def get_request_def delete_user_def res_json_def)
qed

text \<open>
  Claim C3 (a token is returned only for a stored user of the submitted name whose hash
  verifies; every other input gets an authentication error). The code does not keep it.
  No stored user is called \<^verbatim>\<open>admin' --\<close>, yet a login under that name with the
  administrator's password returns the administrator's token: the quote closes the literal
  of the interpolated query and the rest is a comment. And the user name made of one
  quote is answered with 500 and \<^verbatim>\<open>Database error\<close>, which is no authentication error.
\<close>

theorem login_accepts_injected_username:
  "find (\<lambda>u. u_username u = injected_username) (users seeded) = None
   \<and> handle bcrypt_compareSync secret now seeded (login_request injected_username ''password123'') =
       Some (seeded,
             \<lparr>status = 200,
              body = JObj [(''token'', JToken (jwt_sign 1 ''admin'' ''admin'' secret now)),
                           (''user'', JObj [(''id'', JNum 1), (''username'', JStr ''admin''),
                                            (''email'', JStr ''admin@example.com''),
                                            (''role'', JStr ''admin''),
                                            (''password'', JStr hashedPassword)])]\<rparr>)
   \<and> handle cmp secret now seeded (login_request [quote] p) =
       Some (seeded, \<lparr>status = 500, body = JObj [(''error'', JStr ''Database error'')]\<rparr>)"
proof (intro conjI)
  show "find (\<lambda>u. u_username u = injected_username) (users seeded) = None"
    by (rule no_injected_user)
  have "login_cb bcrypt_compareSync secret now (Inr (Some admin_row)) ''password123'' =
          ([CompareSync ''password123'' hashedPassword, Sign 1],
           \<lparr>status = 200,
            body = JObj [(''token'', JToken (jwt_sign 1 ''admin'' ''admin'' secret now)),
                         (''user'', JObj [(''id'', JNum 1), (''username'', JStr ''admin''),
                                          (''email'', JStr ''admin@example.com''),
                                          (''role'', JStr ''admin''),
                                          (''password'', JStr hashedPassword)])]\<rparr>)"
    using login_cb_success [of bcrypt_compareSync "''password123''" admin_row secret now]
    by (simp add: admin_password compare_seed) (simp add: admin_row_def)
  then show "handle bcrypt_compareSync secret now seeded (login_request injected_username ''password123'') =
       Some (seeded,
             \<lparr>status = 200,
              body = JObj [(''token'', JToken (jwt_sign 1 ''admin'' ''admin'' secret now)),
                           (''user'', JObj [(''id'', JNum 1), (''username'', JStr ''admin''),
                                            (''email'', JStr ''admin@example.com''),
                                            (''role'', JStr ''admin''),
                                            (''password'', JStr hashedPassword)])]\<rparr>)"
    by (simp add: handle_login lookup_injected)
  show "handle cmp secret now seeded (login_request [quote] p) =
       Some (seeded, \<lparr>status = 500, body = JObj [(''error'', JStr ''Database error'')]\<rparr>)"
    by (simp add: handle_login lookup_lone_quote login_cb_error)
qed

text \<open>
  Claim C4 (a task is read only by its owner or an administrator, else 403). The code
  does not keep it. The task with id 1 belongs to the user with id 1; a request that
  carries the token of \<^verbatim>\<open>user1\<close> (id 2, role \<^verbatim>\<open>user\<close>) reads it with status 200.
\<close>

theorem task_read_by_non_owner:
  "j_id (user1_token secret t) = 2 \<and> j_role (user1_token secret t) = ''user''
   \<and> handle cmp secret now with_admin_task
        (get_request [''api'', ''tasks'', ''1''] (Some (user1_token secret t))) =
       Some (with_admin_task,
             \<lparr>status = 200,
              body = JObj [(''id'', JNum 1), (''user_id'', JNum 1), (''title'', JStr ''Rotate keys''),
                           (''description'', JStr ''private''), (''completed'', JNum 0),
                           (''created_at'', JTime 0)]\<rparr>)"
proof (intro conjI)
  show "j_id (user1_token secret t) = 2" and "j_role (user1_token secret t) = ''user''"
    by (simp_all add: user1_token_def jwt_sign_def)
  have "int_param ''1'' = Some 1"
    by (simp add: int_param_def digit_val_def)
  then have "get_task with_admin_task ''1'' =
       Some \<lparr>status = 200,
              body = JObj [(''id'', JNum 1), (''user_id'', JNum 1), (''title'', JStr ''Rotate keys''),
                           (''description'', JStr ''private''), (''completed'', JNum 0),
                           (''created_at'', JTime 0)]\<rparr>"
    by (simp add: get_task_def tasks_get_def with_admin_task_eq seeded_fault task_row_def res_json_def)
  then show "handle cmp secret now with_admin_task
        (get_request [''api'', ''tasks'', ''1''] (Some (user1_token secret t))) =
       Some (with_admin_task,
             \<lparr>status = 200,
              body = JObj [(''id'', JNum 1), (''user_id'', JNum 1), (''title'', JStr ''Rotate keys''),
                           (''description'', JStr ''private''), (''completed'', JNum 0),
                           (''created_at'', JTime 0)]\<rparr>)"
    by (simp add: handle_def get_request_def)
qed

text \<open>
  Claim C5 (every failed login gets the same 401 response, whatever the cause). The code
  does not keep it. Neither \<^verbatim>\<open>nobody\<close> nor the name made of one quote is a stored user, and
  a login under the first is answered 401 \<^verbatim>\<open>Invalid credentials\<close>, but a login under the
  second is answered 500 \<^verbatim>\<open>Database error\<close>: interpolated into the query, the quote leaves
  the literal unclosed.
\<close>

theorem absent_user_logins_differ:
  "find (\<lambda>u. u_username u = ''nobody'') (users seeded) = None
   \<and> find (\<lambda>u. u_username u = [quote]) (users seeded) = None
   \<and> handle cmp secret now seeded (login_request ''nobody'' p) =
       Some (seeded, \<lparr>status = 401, body = JObj [(''error'', JStr ''Invalid credentials'')]\<rparr>)
   \<and> handle cmp secret now seeded (login_request [quote] p) =
       Some (seeded, \<lparr>status = 500, body = JObj [(''error'', JStr ''Database error'')]\<rparr>)"
proof (intro conjI)
  show "find (\<lambda>u. u_username u = ''nobody'') (users seeded) = None"
    by (rule no_nobody_user)
  show "find (\<lambda>u. u_username u = [quote]) (users seeded) = None"
    by (rule no_lone_quote_user)
  show "handle cmp secret now seeded (login_request ''nobody'' p) =
       Some (seeded, \<lparr>status = 401, body = JObj [(''error'', JStr ''Invalid credentials'')]\<rparr>)"
    by (simp add: handle_login lookup_nobody login_cb_absent invalid_credentials_def
        res_status_json_def)
  show "handle cmp secret now seeded (login_request [quote] p) =
       Some (seeded, \<lparr>status = 500, body = JObj [(''error'', JStr ''Database error'')]\<rparr>)"
    by (simp add: handle_login lookup_lone_quote login_cb_error)
qed

text \<open>
  Claim C6 (an issued token expires 24 hours after it was issued, and verification
  rejects it after that). Issuing is as claimed: the login of \<^verbatim>\<open>user1\<close> returns a token
  with the user's id and role, issued at the current second and expiring 86400 seconds
  later. Nothing in the server verifies a token, though: one second past the expiry a
  request carrying that token is served with status 200.
\<close>

theorem expired_token_still_served:
  "handle bcrypt_compareSync secret now seeded (login_request ''user1'' ''password123'') =
     Some (seeded,
           \<lparr>status = 200,
            body = JObj [(''token'', JToken (user1_token secret now)),
                         (''user'', JObj [(''id'', JNum 2), (''username'', JStr ''user1''),
                                          (''email'', JStr ''user1@example.com''),
                                          (''role'', JStr ''user''),
                                          (''password'', JStr hashedPassword)])]\<rparr>)
   \<and> iat (user1_token secret now) = now div 1000
   \<and> exp (user1_token secret now) = iat (user1_token secret now) + 86400
   \<and> exp (user1_token secret now) < (1000 * (exp (user1_token secret now) + 1)) div 1000
   \<and> handle cmp secret (1000 * (exp (user1_token secret now) + 1)) seeded
        (get_request [''api'', ''users''] (Some (user1_token secret now))) =
     Some (seeded, \<lparr>status = 200, body = JArr [user_row admin_row, user_row user1_row]\<rparr>)"
proof (intro conjI)
  have "login_cb bcrypt_compareSync secret now (Inr (Some user1_row)) ''password123'' =
          ([CompareSync ''password123'' hashedPassword, Sign 2],
           \<lparr>status = 200,
            body = JObj [(''token'', JToken (user1_token secret now)),
                         (''user'', JObj [(''id'', JNum 2), (''username'', JStr ''user1''),
                                          (''email'', JStr ''user1@example.com''),
                                          (''role'', JStr ''user''),
                                          (''password'', JStr hashedPassword)])]\<rparr>)"
    using login_cb_success [of bcrypt_compareSync "''password123''" user1_row secret now]
    by (simp add: user1_password compare_seed) (simp add: user1_row_def user1_token_def)
  then show "handle bcrypt_compareSync secret now seeded (login_request ''user1'' ''password123'') =
     Some (seeded,
           \<lparr>status = 200,
            body = JObj [(''token'', JToken (user1_token secret now)),
                         (''user'', JObj [(''id'', JNum 2), (''username'', JStr ''user1''),
                                          (''email'', JStr ''user1@example.com''),
                                          (''role'', JStr ''user''),
                                          (''password'', JStr hashedPassword)])]\<rparr>)"
    by (simp add: handle_login lookup_user1)
  show "iat (user1_token secret now) = now div 1000"
    by (simp add: user1_token_def jwt_sign_def)
  show "exp (user1_token secret now) = iat (user1_token secret now) + 86400"
    by (simp add: user1_token_def jwt_sign_def expiresIn_def)
  show "exp (user1_token secret now) < (1000 * (exp (user1_token secret now) + 1)) div 1000"
    by simp
  show "handle cmp secret (1000 * (exp (user1_token secret now) + 1)) seeded
        (get_request [''api'', ''users''] (Some (user1_token secret now))) =
     Some (seeded, \<lparr>status = 200, body = JArr [user_row admin_row, user_row user1_row]\<rparr>)"
    by (simp only: handle_users get_users_seeded)
qed

text \<open>
  Claim C7 (without a signing key, startup in production fails). The code does not keep
  it. With \<^verbatim>\<open>NODE_ENV=production\<close> and no \<^verbatim>\<open>JWT_SECRET\<close> the server comes up and signs
  with the default written in the source.
\<close>

theorem startup_falls_back_to_default_secret:
  "startup production_env =
     \<lparr>port = ''3001'', jwt_secret = ''super-secret-key-12345'',
      logged_environment = ''production'', database = seeded\<rparr>"
  by (simp add: startup_def production_env_def PORT_def JWT_SECRET_def NODE_ENV_def env_or_def)

text \<open>
  Claim C8 (a login for an unknown user name still performs one hash comparison). The code
  does not keep it. For an unknown user name the handler answers without any call of the
  comparison, whereas a wrong password for a known user costs one call.
\<close>

theorem absent_user_skips_hash_comparison:
  "post_login cmp secret now seeded (JObj [(''username'', JStr ''nobody''), (''password'', JStr p)]) =
     Some ([], invalid_credentials)
   \<and> post_login bcrypt_compareSync secret now seeded
        (JObj [(''username'', JStr ''admin''), (''password'', JStr ''wrong'')]) =
     Some ([CompareSync ''wrong'' hashedPassword], invalid_credentials)"
proof (intro conjI)
  show "post_login cmp secret now seeded (JObj [(''username'', JStr ''nobody''), (''password'', JStr p)]) =
     Some ([], invalid_credentials)"
    by (simp add: post_login_strings lookup_nobody login_cb_absent)
  have "login_cb bcrypt_compareSync secret now (Inr (Some admin_row)) ''wrong'' =
          ([CompareSync ''wrong'' hashedPassword], invalid_credentials)"
    using login_cb_mismatch [of bcrypt_compareSync "''wrong''" admin_row secret now]
    by (simp add: admin_password compare_wrong)
  then show "post_login bcrypt_compareSync secret now seeded
        (JObj [(''username'', JStr ''admin''), (''password'', JStr ''wrong'')]) =
     Some ([CompareSync ''wrong'' hashedPassword], invalid_credentials)"
    by (simp add: post_login_strings lookup_admin)
qed

text \<open>
  Claim C9 (the user listing projects the columns id, username, email and role only). For
  every database, the answer to \<^verbatim>\<open>GET /api/users\<close> is, when the engine reports no error,
  status 200 with one record per stored user, holding the user's id, username, email and
  role under these four keys, in this order; and status 500 with the engine's message
  otherwise. Every record of the body has exactly the four keys, and the answer stays the
  same when the stored password hashes are replaced by any others.
\<close>

theorem user_listing_columns:
  assumes "meth req = GET" and "path req = [''api'', ''users'']" and "payload req = Inr b"
  shows "\<exists>r. handle cmp secret now d req = Some (d, r)
           \<and> (\<forall>row \<in> set (elements (body r)). keys row = [''id'', ''username'', ''email'', ''role''])
           \<and> (fault d = None \<longrightarrow>
                r = \<lparr>status = 200,
                     body = JArr (map (\<lambda>u. JObj [(''id'', JNum (int (u_id u))),
                                                  (''username'', JStr (u_username u)),
                                                  (''email'', JStr (u_email u)),
                                                  (''role'', JStr (u_role u))])
                                   (users d))\<rparr>)
           \<and> (\<forall>m. fault d = Some m \<longrightarrow> r = \<lparr>status = 500, body = JObj [(''error'', JStr m)]\<rparr>)
           \<and> (\<forall>f. handle cmp secret now (d\<lparr>users := map (\<lambda>u. u\<lparr>u_password := f u\<rparr>) (users d)\<rparr>) req =
                    Some (d\<lparr>users := map (\<lambda>u. u\<lparr>u_password := f u\<rparr>) (users d)\<rparr>, r))"
proof (intro exI [of _ "get_users d"] conjI)
  show "handle cmp secret now d req = Some (d, get_users d)"
    using assms by (simp add: handle_def)
  show "\<forall>row \<in> set (elements (body (get_users d))). keys row = [''id'', ''username'', ''email'', ''role'']"
    by (cases "fault d") (auto simp add: get_users_ok get_users_fault)
  show "fault d = None \<longrightarrow>
          get_users d =
            \<lparr>status = 200,
             body = JArr (map (\<lambda>u. JObj [(''id'', JNum (int (u_id u))),
                                          (''username'', JStr (u_username u)),
                                          (''email'', JStr (u_email u)),
                                          (''role'', JStr (u_role u))])
                           (users d))\<rparr>"
    by (simp add: get_users_ok)
  show "\<forall>m. fault d = Some m \<longrightarrow> get_users d = \<lparr>status = 500, body = JObj [(''error'', JStr m)]\<rparr>"
    by (simp add: get_users_fault)
  show "\<forall>f. handle cmp secret now (d\<lparr>users := map (\<lambda>u. u\<lparr>u_password := f u\<rparr>) (users d)\<rparr>) req =
              Some (d\<lparr>users := map (\<lambda>u. u\<lparr>u_password := f u\<rparr>) (users d)\<rparr>, get_users d)"
    using assms by (simp add: handle_def get_users_passwords)
qed

text \<open>
  Claim C9, at a concrete input: the listing of the seeded database, and the same listing
  after every stored hash has been replaced.
\<close>

theorem user_listing_columns_witness:
  "handle bcrypt_compareSync ''k'' 0 seeded (get_request [''api'', ''users''] None) =
     Some (seeded,
           \<lparr>status = 200,
            body = JArr [JObj [(''id'', JNum 1), (''username'', JStr ''admin''),
                               (''email'', JStr ''admin@example.com''), (''role'', JStr ''admin'')],
                         JObj [(''id'', JNum 2), (''username'', JStr ''user1''),
                               (''email'', JStr ''user1@example.com''), (''role'', JStr ''user'')]]\<rparr>)
   \<and> handle bcrypt_compareSync ''k'' 0
        (seeded\<lparr>users := map (\<lambda>u. u\<lparr>u_password := ''another hash''\<rparr>) (users seeded)\<rparr>)
        (get_request [''api'', ''users''] None) =
     Some (seeded\<lparr>users := map (\<lambda>u. u\<lparr>u_password := ''another hash''\<rparr>) (users seeded)\<rparr>,
           \<lparr>status = 200,
            body = JArr [JObj [(''id'', JNum 1), (''username'', JStr ''admin''),
                               (''email'', JStr ''admin@example.com''), (''role'', JStr ''admin'')],
                         JObj [(''id'', JNum 2), (''username'', JStr ''user1''),
                               (''email'', JStr ''user1@example.com''), (''role'', JStr ''user'')]]\<rparr>)"
proof -
  obtain r where r: "handle bcrypt_compareSync ''k'' 0 seeded (get_request [''api'', ''users''] None) = Some (seeded, r)"
    and ok: "fault seeded = None \<longrightarrow>
                r = \<lparr>status = 200,
                     body = JArr (map (\<lambda>u. JObj [(''id'', JNum (int (u_id u))),
                                                  (''username'', JStr (u_username u)),
                                                  (''email'', JStr (u_email u)),
                                                  (''role'', JStr (u_role u))])
                                   (users seeded))\<rparr>"
    and pw: "\<forall>f. handle bcrypt_compareSync ''k'' 0
                  (seeded\<lparr>users := map (\<lambda>u. u\<lparr>u_password := f u\<rparr>) (users seeded)\<rparr>)
                  (get_request [''api'', ''users''] None) =
                Some (seeded\<lparr>users := map (\<lambda>u. u\<lparr>u_password := f u\<rparr>) (users seeded)\<rparr>, r)"
    using user_listing_columns [of "get_request [''api'', ''users''] None" "JObj []" bcrypt_compareSync "''k''" 0 seeded]
    by (auto simp add: get_request_def)
  from ok have v: "r = \<lparr>status = 200,
            body = JArr [JObj [(''id'', JNum 1), (''username'', JStr ''admin''),
                               (''email'', JStr ''admin@example.com''), (''role'', JStr ''admin'')],
                         JObj [(''id'', JNum 2), (''username'', JStr ''user1''),
                               (''email'', JStr ''user1@example.com''), (''role'', JStr ''user'')]]\<rparr>"
    by (simp add: seeded_fault seeded_users admin_row_def user1_row_def)
  from pw have "handle bcrypt_compareSync ''k'' 0
                  (seeded\<lparr>users := map (\<lambda>u. u\<lparr>u_password := ''another hash''\<rparr>) (users seeded)\<rparr>)
                  (get_request [''api'', ''users''] None) =
                Some (seeded\<lparr>users := map (\<lambda>u. u\<lparr>u_password := ''another hash''\<rparr>) (users seeded)\<rparr>, r)"
    by (rule spec)
  with r v show ?thesis
    by simp
qed




end
